theory Spec2Isabelle
  imports
    Complex_Main
    "HOL-Library.Sublist"
    "HOL-Library.List_Lexorder"
    "HOL-Library.Word"
begin

section \<open>SilverStream: the movie catalogue browser\<close>

text \<open>
  The program is a React application of two routes: \<^verbatim>\<open>app/routes/home.tsx\<close> (the
  component \<^verbatim>\<open>Home\<close>: search, three filters, pagination) and
  \<^verbatim>\<open>app/routes/movie-detail.tsx\<close> (the component \<^verbatim>\<open>MovieDetail\<close>: lookup of one
  record by title). The values a render computes (\<^verbatim>\<open>filterOptions\<close>,
  \<^verbatim>\<open>filteredMovies\<close>, \<^verbatim>\<open>totalPages\<close>, \<^verbatim>\<open>currentMovies\<close>) are functions of the
  component's state; they are embedded as HOL functions on a record of that state.

  A JavaScript string is a sequence of 16-bit code units (UTF-16): the type \<open>jsstring\<close>.
  Equality of strings (\<^verbatim>\<open>===\<close>) is equality of these lists; the order of the default
  \<^verbatim>\<open>sort()\<close> is the lexicographic order of code units, which is the order of lists of
  words. \<open>js\<close> writes a string of ASCII characters as a \<open>jsstring\<close>.
\<close>

type_synonym code_unit = "16 word"

type_synonym jsstring = "code_unit list"

definition js :: "string \<Rightarrow> jsstring" where
  "js s = map (\<lambda>c. of_nat (of_char c)) s"

subsection \<open>Data model\<close>

text \<open>
  \<^verbatim>\<open>interface Movie\<close>. The detail route declares the same interface with one more
  field, \<^verbatim>\<open>description\<close>; it is the extension \<open>MovieWithDescription\<close> of the record, and
  every function below takes a record with any extension.
\<close>

record Movie =
  title :: jsstring
  year :: jsstring
  rating :: jsstring
  genres :: "jsstring list"
  url :: jsstring
  image_url :: jsstring
  video_source :: jsstring

record MovieWithDescription = Movie +
  description :: jsstring

text \<open>\<^verbatim>\<open>interface MoviesData\<close>, the shape of \<^verbatim>\<open>/data/movies.json\<close>.\<close>

record 'a MoviesData =
  total_movies :: int
  movies :: "'a Movie_scheme list"

text \<open>
  The state of \<^verbatim>\<open>Home\<close> that the derived values read: the \<^verbatim>\<open>useState\<close> cells
  \<^verbatim>\<open>moviesData\<close> (\<^verbatim>\<open>null\<close> until the document is loaded), \<^verbatim>\<open>currentPage\<close> and the
  four filter fields.
\<close>

record 'a HomeState =
  moviesData :: "'a MoviesData option"
  currentPage :: int
  searchTerm :: jsstring
  selectedGenre :: jsstring
  selectedYear :: jsstring
  selectedRating :: jsstring

subsection \<open>Built-in string and array operations\<close>

text \<open>
  \<^verbatim>\<open>String.prototype.toLowerCase\<close> is the lower-case conversion of Unicode. It is
  modelled on three blocks, Basic Latin, Latin-1 Supplement and the Greek capitals
  from U+0391 to U+03AB, with the two rules of Unicode that are not a mapping of single
  characters:
  \<^item> the capital sigma U+03A3 becomes the final sigma U+03C2 when a cased letter comes
    before it and none after it, case-ignorable characters between them set aside
    (\<open>Final_Sigma\<close>), and the small sigma U+03C3 otherwise;
  \<^item> the capital I with dot above, U+0130, becomes the two code units U+0069 U+0307.
  A code unit of another block is left as it is, which is what the conversion does to
  a character without case; the cased letters of the other blocks are not modelled.
  \<open>isCased\<close> and \<open>isCaseIgnorable\<close> are the properties \<open>Cased\<close> and \<open>Case_Ignorable\<close> of
  Unicode on four blocks: Basic Latin, Latin-1 Supplement, the combining marks from
  U+0300 to U+036F, and Greek and Coptic. A character that is both counts as
  case-ignorable, as in the implementation of the rule in ICU.
\<close>

definition simpleLower :: "code_unit \<Rightarrow> code_unit" where
  "simpleLower c =
     (if (0x41 \<le> c \<and> c \<le> 0x5A) \<or>
         (0xC0 \<le> c \<and> c \<le> 0xDE \<and> c \<noteq> 0xD7) \<or>
         (0x391 \<le> c \<and> c \<le> 0x3AB \<and> c \<noteq> 0x3A2)
      then c + 32 else c)"

definition isCased :: "code_unit \<Rightarrow> bool" where
  "isCased c =
     ((0x41 \<le> c \<and> c \<le> 0x5A) \<or> (0x61 \<le> c \<and> c \<le> 0x7A) \<or>
      c = 0xAA \<or> c = 0xB5 \<or> c = 0xBA \<or>
      (0xC0 \<le> c \<and> c \<le> 0xFF \<and> c \<noteq> 0xD7 \<and> c \<noteq> 0xF7) \<or>
      c = 0x345 \<or>
      (0x370 \<le> c \<and> c \<le> 0x373) \<or> c = 0x376 \<or> c = 0x377 \<or>
      (0x37A \<le> c \<and> c \<le> 0x37D) \<or> c = 0x37F \<or> c = 0x386 \<or>
      (0x388 \<le> c \<and> c \<le> 0x38A) \<or> c = 0x38C \<or>
      (0x38E \<le> c \<and> c \<le> 0x3A1) \<or> (0x3A3 \<le> c \<and> c \<le> 0x3F5) \<or>
      (0x3F7 \<le> c \<and> c \<le> 0x3FF))"

definition isCaseIgnorable :: "code_unit \<Rightarrow> bool" where
  "isCaseIgnorable c =
     (c \<in> {0x27, 0x2E, 0x3A, 0x5E, 0x60, 0xA8, 0xAD, 0xAF, 0xB4, 0xB7, 0xB8,
            0x374, 0x375, 0x37A, 0x384, 0x385, 0x387} \<or>
      (0x300 \<le> c \<and> c \<le> 0x36F))"

text \<open>
  \<open>before\<close> holds the code units in front of the sigma, the nearest first; \<open>after\<close> those
  behind it.
\<close>

definition final_sigma :: "jsstring \<Rightarrow> jsstring \<Rightarrow> bool" where
  "final_sigma before after =
     ((case dropWhile isCaseIgnorable before of [] \<Rightarrow> False | b # _ \<Rightarrow> isCased b) \<and>
      (case dropWhile isCaseIgnorable after of [] \<Rightarrow> True | a # _ \<Rightarrow> \<not> isCased a))"

fun lower_units :: "jsstring \<Rightarrow> jsstring \<Rightarrow> jsstring" where
  "lower_units before [] = []"
| "lower_units before (c # rest) =
     (if c = 0x3A3 then [if final_sigma before rest then 0x3C2 else 0x3C3]
      else if c = 0x130 then [0x69, 0x307]
      else [simpleLower c]) @ lower_units (c # before) rest"

definition toLowerCase :: "jsstring \<Rightarrow> jsstring" where
  "toLowerCase s = lower_units [] s"

text \<open>
  \<^verbatim>\<open>String.prototype.includes\<close>: does the argument occur in the receiver as a run of
  consecutive code units, at some position? The empty string occurs everywhere.
\<close>

fun includes_str :: "jsstring \<Rightarrow> jsstring \<Rightarrow> bool" where
  "includes_str [] s = (s = [])"
| "includes_str (c # t) s = (prefix s (c # t) \<or> includes_str t s)"

text \<open>\<^verbatim>\<open>Array.prototype.includes\<close> on an array of strings.\<close>

definition includes_arr :: "jsstring list \<Rightarrow> jsstring \<Rightarrow> bool" where
  "includes_arr xs x = (x \<in> set xs)"

subsection \<open>Filtering (\<^verbatim>\<open>filteredMovies\<close>)\<close>

definition matchesSearch :: "'a HomeState \<Rightarrow> 'b Movie_scheme \<Rightarrow> bool" where
  "matchesSearch st movie =
     (searchTerm st = [] \<or>
      includes_str (toLowerCase (title movie)) (toLowerCase (searchTerm st)))"

definition matchesGenre :: "'a HomeState \<Rightarrow> 'b Movie_scheme \<Rightarrow> bool" where
  "matchesGenre st movie =
     (selectedGenre st = [] \<or> includes_arr (genres movie) (selectedGenre st))"

definition matchesYear :: "'a HomeState \<Rightarrow> 'b Movie_scheme \<Rightarrow> bool" where
  "matchesYear st movie = (selectedYear st = [] \<or> year movie = selectedYear st)"

definition matchesRating :: "'a HomeState \<Rightarrow> 'b Movie_scheme \<Rightarrow> bool" where
  "matchesRating st movie = (selectedRating st = [] \<or> rating movie = selectedRating st)"

definition filteredMovies :: "'a HomeState \<Rightarrow> 'a Movie_scheme list" where
  "filteredMovies st =
     (case moviesData st of
        None \<Rightarrow> []
      | Some d \<Rightarrow>
          filter (\<lambda>movie. matchesSearch st movie \<and> matchesGenre st movie \<and>
                          matchesYear st movie \<and> matchesRating st movie)
            (movies d))"

subsection \<open>Pagination (\<^verbatim>\<open>totalPages\<close>, \<^verbatim>\<open>startIndex\<close>, \<^verbatim>\<open>endIndex\<close>, \<^verbatim>\<open>currentMovies\<close>)\<close>

definition MOVIES_PER_PAGE :: int where
  "MOVIES_PER_PAGE = 20"

text \<open>
  \<^verbatim>\<open>Array.prototype.slice(start, end)\<close> for integral arguments: a negative index counts
  from the end, both indices are clamped to the array, and an empty range gives the
  empty array. It never throws.
\<close>

definition slice :: "'a list \<Rightarrow> int \<Rightarrow> int \<Rightarrow> 'a list" where
  "slice xs start fin =
     (let len = int (length xs);
          k = (if start < 0 then max (len + start) 0 else min start len);
          final = (if fin < 0 then max (len + fin) 0 else min fin len)
      in take (nat (final - k)) (drop (nat k) xs))"

text \<open>
  The four lines of \<^verbatim>\<open>Home\<close> that compute the visible page, first with the page size
  as a parameter, then as the program has them, at \<^verbatim>\<open>MOVIES_PER_PAGE\<close>.
  \<^verbatim>\<open>Math.ceil(length / size)\<close> is the ceiling of the quotient of real numbers (the
  quotient of a length by 20 in floating point rounds to the same ceiling). The page
  number is an integer: the program sets it to 1, to a neighbour of itself, or to the
  number on a page button.
\<close>

definition totalPages_for :: "int \<Rightarrow> 'm list \<Rightarrow> int" where
  "totalPages_for pageSize filtered = \<lceil>real (length filtered) / real_of_int pageSize\<rceil>"

definition startIndex_for :: "int \<Rightarrow> int \<Rightarrow> int" where
  "startIndex_for pageSize page = (page - 1) * pageSize"

definition endIndex_for :: "int \<Rightarrow> int \<Rightarrow> int" where
  "endIndex_for pageSize page = startIndex_for pageSize page + pageSize"

definition currentMovies_for :: "int \<Rightarrow> 'm list \<Rightarrow> int \<Rightarrow> 'm list" where
  "currentMovies_for pageSize filtered page =
     slice filtered (startIndex_for pageSize page) (endIndex_for pageSize page)"

definition totalPages :: "'a HomeState \<Rightarrow> int" where
  "totalPages st = totalPages_for MOVIES_PER_PAGE (filteredMovies st)"

definition startIndex :: "'a HomeState \<Rightarrow> int" where
  "startIndex st = startIndex_for MOVIES_PER_PAGE (currentPage st)"

definition endIndex :: "'a HomeState \<Rightarrow> int" where
  "endIndex st = endIndex_for MOVIES_PER_PAGE (currentPage st)"

definition currentMovies :: "'a HomeState \<Rightarrow> 'a Movie_scheme list" where
  "currentMovies st = currentMovies_for MOVIES_PER_PAGE (filteredMovies st) (currentPage st)"

subsection \<open>Filter options (\<^verbatim>\<open>filterOptions\<close>)\<close>

text \<open>
  A JavaScript \<^verbatim>\<open>Set\<close> of strings keeps its members in the order of their first
  insertion, and \<^verbatim>\<open>Array.from\<close> reads them in that order: the set is the list of its
  members, and \<^verbatim>\<open>add\<close> appends a string that is not there yet.
\<close>

definition set_add :: "jsstring list \<Rightarrow> jsstring \<Rightarrow> jsstring list" where
  "set_add s x = (if x \<in> set s then s else s @ [x])"

record option_sets =
  allGenres :: "jsstring list"
  allYears :: "jsstring list"
  allRatings :: "jsstring list"

text \<open>The body of \<^verbatim>\<open>moviesData.movies.forEach\<close>, on the three sets.\<close>

definition collect_movie :: "'b Movie_scheme \<Rightarrow> option_sets \<Rightarrow> option_sets" where
  "collect_movie movie acc =
     \<lparr>allGenres = fold (\<lambda>genre s. set_add s genre) (genres movie) (allGenres acc),
      allYears = set_add (allYears acc) (year movie),
      allRatings = set_add (allRatings acc) (rating movie)\<rparr>"

text \<open>
  \<^verbatim>\<open>parseInt(string)\<close> with no radix: leading white space is dropped, then one sign,
  then a prefix \<^verbatim>\<open>0x\<close> or \<^verbatim>\<open>0X\<close> (which makes the radix 16, otherwise it is 10); the
  longest run of digits of that radix is the number, and no digit at all gives
  \<^verbatim>\<open>NaN\<close>, here \<open>None\<close>. The result is an integer; it is the JavaScript number as long
  as it is below \<open>2\<^sup>5\<^sup>3\<close> in magnitude. White space is the white space and the line
  terminators of the language.
\<close>

definition isWhiteSpace :: "code_unit \<Rightarrow> bool" where
  "isWhiteSpace c =
     (c \<in> {0x09, 0x0A, 0x0B, 0x0C, 0x0D, 0x20, 0xA0, 0x1680, 0x2028, 0x2029, 0x202F,
            0x205F, 0x3000, 0xFEFF} \<or>
      (0x2000 \<le> c \<and> c \<le> 0x200A))"

definition digitValue :: "code_unit \<Rightarrow> nat" where
  "digitValue c =
     (if 0x30 \<le> c \<and> c \<le> 0x39 then unat c - 48
      else if 0x61 \<le> c \<and> c \<le> 0x7A then unat c - 87
      else if 0x41 \<le> c \<and> c \<le> 0x5A then unat c - 55
      else 36)"

definition isRadixDigit :: "nat \<Rightarrow> code_unit \<Rightarrow> bool" where
  "isRadixDigit R c = (digitValue c < R)"

definition parseInt :: "jsstring \<Rightarrow> int option" where
  "parseInt str =
     (let s = dropWhile isWhiteSpace str;
          sign = (if take 1 s = js ''-'' then - 1 else 1);
          s1 = (if take 1 s = js ''-'' \<or> take 1 s = js ''+'' then drop 1 s else s);
          hex = (take 2 s1 = js ''0x'' \<or> take 2 s1 = js ''0X'');
          R = (if hex then 16 else 10);
          s2 = (if hex then drop 2 s1 else s1);
          z = takeWhile (isRadixDigit R) s2
      in if z = [] then None
         else Some (sign * int (foldl (\<lambda>n c. n * R + digitValue c) 0 z)))"

text \<open>
  The comparator of the years, \<^verbatim>\<open>(a, b) => parseInt(b) - parseInt(a)\<close>: a difference
  with \<^verbatim>\<open>NaN\<close> is \<^verbatim>\<open>NaN\<close>.
\<close>

definition yearCompare :: "jsstring \<Rightarrow> jsstring \<Rightarrow> int option" where
  "yearCompare a b =
     (case parseInt b of
        None \<Rightarrow> None
      | Some y \<Rightarrow> (case parseInt a of None \<Rightarrow> None | Some x \<Rightarrow> Some (y - x)))"

text \<open>
  \<^verbatim>\<open>Array.prototype.sort(comparefn)\<close>. The comparison of two elements takes a \<^verbatim>\<open>NaN\<close>
  from the comparator as \<open>0\<close>. The sort is stable: an element stays before every later
  element that the comparator does not put strictly before it. It is written as an
  insertion sort, which is the result of every stable sort where the comparator orders
  the elements consistently, as the comparator of the years does on years that are
  numbers. Where the comparator is not consistent (a year that is not a number gives
  \<^verbatim>\<open>NaN\<close>) the language leaves the order to the implementation, and \<open>sort_with\<close> is not
  the sort of an engine there: the result of the engine is some other arrangement of
  the same elements. No order is stated of such a list below, only its elements.
\<close>

definition sortCompare :: "('a \<Rightarrow> 'a \<Rightarrow> int option) \<Rightarrow> 'a \<Rightarrow> 'a \<Rightarrow> int" where
  "sortCompare comparefn x y = (case comparefn x y of None \<Rightarrow> 0 | Some v \<Rightarrow> v)"

fun insert_sorted :: "('a \<Rightarrow> 'a \<Rightarrow> int option) \<Rightarrow> 'a \<Rightarrow> 'a list \<Rightarrow> 'a list" where
  "insert_sorted comparefn x [] = [x]"
| "insert_sorted comparefn x (y # ys) =
     (if sortCompare comparefn x y \<le> 0 then x # y # ys
      else y # insert_sorted comparefn x ys)"

definition sort_with :: "('a \<Rightarrow> 'a \<Rightarrow> int option) \<Rightarrow> 'a list \<Rightarrow> 'a list" where
  "sort_with comparefn xs = foldr (insert_sorted comparefn) xs []"

text \<open>
  The object that \<^verbatim>\<open>filterOptions\<close> returns. Its fields are \<^verbatim>\<open>genres\<close>, \<^verbatim>\<open>years\<close> and
  \<^verbatim>\<open>ratings\<close> in the source; \<open>genres\<close> is a field of \<open>Movie\<close> already, so the three
  carry the suffix \<open>_options\<close> here. The default \<^verbatim>\<open>sort()\<close> of an array of strings
  compares them code unit by code unit: it is \<^const>\<open>sort\<close> in the order of \<^typ>\<open>jsstring\<close>,
  the lexicographic order of lists of words.
\<close>

record FilterOptions =
  genres_options :: "jsstring list"
  years_options :: "jsstring list"
  ratings_options :: "jsstring list"

definition filterOptions :: "'a HomeState \<Rightarrow> FilterOptions" where
  "filterOptions st =
     (case moviesData st of
        None \<Rightarrow> \<lparr>genres_options = [], years_options = [], ratings_options = []\<rparr>
      | Some d \<Rightarrow>
          (let acc = fold collect_movie (movies d)
                       \<lparr>allGenres = [], allYears = [], allRatings = []\<rparr>
           in \<lparr>genres_options = sort (allGenres acc),
               years_options = sort_with yearCompare (allYears acc),
               ratings_options = sort (allRatings acc)\<rparr>))"

text \<open>
  The orders of the specification. Ascending lexicographic order of strings is the
  order by code units. Descending numeric order of years is the order of the numbers
  that \<^verbatim>\<open>parseInt\<close> reads: a year is not listed before a year with a greater number. A
  year is a number when \<^verbatim>\<open>parseInt\<close> reads one, of a magnitude that a JavaScript number
  holds exactly.
\<close>

definition lex_less :: "jsstring \<Rightarrow> jsstring \<Rightarrow> bool" where
  "lex_less a b = ((a, b) \<in> lexord {(u, v). unat u < unat v})"

definition is_number :: "jsstring \<Rightarrow> bool" where
  "is_number y = (case parseInt y of None \<Rightarrow> False | Some n \<Rightarrow> \<bar>n\<bar> < 2 ^ 53)"

definition numeric_desc :: "jsstring \<Rightarrow> jsstring \<Rightarrow> bool" where
  "numeric_desc a b =
     (case parseInt a of
        None \<Rightarrow> True
      | Some x \<Rightarrow> (case parseInt b of None \<Rightarrow> True | Some y \<Rightarrow> y \<le> x))"

text \<open>
  The data model of the specification: a year is a string of four decimal digits.
  Its numeric value is the value of that decimal numeral, and the descending order of
  such years is the order of these values.
\<close>

definition is_year :: "jsstring \<Rightarrow> bool" where
  "is_year y = (length y = 4 \<and> (\<forall>c \<in> set y. 0x30 \<le> c \<and> c \<le> 0x39))"

definition decimal_value :: "jsstring \<Rightarrow> nat" where
  "decimal_value y = foldl (\<lambda>n c. 10 * n + (unat c - 48)) 0 y"

definition decimal_desc :: "jsstring \<Rightarrow> jsstring \<Rightarrow> bool" where
  "decimal_desc a b = (decimal_value b \<le> decimal_value a)"

subsection \<open>Transitions of \<^verbatim>\<open>Home\<close>\<close>

text \<open>
  What changes the state of \<^verbatim>\<open>Home\<close>: the \<^verbatim>\<open>onChange\<close> handlers of the search box and
  of the three drop-downs (the four setters), \<^verbatim>\<open>clearFilters\<close>, \<^verbatim>\<open>handlePageChange\<close>,
  the arrival of the catalogue (\<^verbatim>\<open>setMoviesData\<close>), and the effect that copies the query
  parameters of the URL into the four filter fields when the URL changes
  (\<^verbatim>\<open>searchParams.get(key) || ""\<close> for each of them).
\<close>

datatype 'a event =
    SetSearchTerm jsstring
  | SetSelectedGenre jsstring
  | SetSelectedYear jsstring
  | SetSelectedRating jsstring
  | ClearFilters
  | HandlePageChange int
  | SetMoviesData "'a MoviesData"
  | SearchParamsChanged "jsstring \<Rightarrow> jsstring option"

definition get_or_empty :: "(jsstring \<Rightarrow> jsstring option) \<Rightarrow> jsstring \<Rightarrow> jsstring" where
  "get_or_empty searchParams key = (case searchParams key of None \<Rightarrow> [] | Some v \<Rightarrow> v)"

definition clearFilters :: "'a HomeState \<Rightarrow> 'a HomeState" where
  "clearFilters st =
     st\<lparr>searchTerm := [], selectedGenre := [], selectedYear := [], selectedRating := [],
        currentPage := 1\<rparr>"

definition handlePageChange :: "int \<Rightarrow> 'a HomeState \<Rightarrow> 'a HomeState" where
  "handlePageChange page st = st\<lparr>currentPage := page\<rparr>"

fun dispatch :: "'a event \<Rightarrow> 'a HomeState \<Rightarrow> 'a HomeState" where
  "dispatch (SetSearchTerm v) st = st\<lparr>searchTerm := v\<rparr>"
| "dispatch (SetSelectedGenre v) st = st\<lparr>selectedGenre := v\<rparr>"
| "dispatch (SetSelectedYear v) st = st\<lparr>selectedYear := v\<rparr>"
| "dispatch (SetSelectedRating v) st = st\<lparr>selectedRating := v\<rparr>"
| "dispatch ClearFilters st = clearFilters st"
| "dispatch (HandlePageChange page) st = handlePageChange page st"
| "dispatch (SetMoviesData d) st = st\<lparr>moviesData := Some d\<rparr>"
| "dispatch (SearchParamsChanged searchParams) st =
     st\<lparr>searchTerm := get_or_empty searchParams (js ''search''),
        selectedGenre := get_or_empty searchParams (js ''genre''),
        selectedYear := get_or_empty searchParams (js ''year''),
        selectedRating := get_or_empty searchParams (js ''rating'')\<rparr>"

text \<open>
  The query parameters that the URL effect builds from the state: a parameter for each
  filter field that is not empty (\<^verbatim>\<open>if (searchTerm) params.set("search", searchTerm)\<close>
  and so on).
\<close>

definition searchParams_of :: "'a HomeState \<Rightarrow> jsstring \<Rightarrow> jsstring option" where
  "searchParams_of st key =
     (if key = js ''search'' \<and> searchTerm st \<noteq> [] then Some (searchTerm st)
      else if key = js ''genre'' \<and> selectedGenre st \<noteq> [] then Some (selectedGenre st)
      else if key = js ''year'' \<and> selectedYear st \<noteq> [] then Some (selectedYear st)
      else if key = js ''rating'' \<and> selectedRating st \<noteq> [] then Some (selectedRating st)
      else None)"

text \<open>
  The effect \<^verbatim>\<open>useEffect(() => { setCurrentPage(1); }, [searchTerm, selectedGenre,
  selectedYear, selectedRating])\<close>: after a render is committed React compares the four
  dependencies with those of the render before, and runs the effect when one of them
  differs. The effect sets the page for the next render. \<open>reset_page_effect prev cur\<close> is
  the state after the effects of the render \<open>cur\<close>, whose predecessor was \<open>prev\<close>.
\<close>

definition filter_deps :: "'a HomeState \<Rightarrow> jsstring \<times> jsstring \<times> jsstring \<times> jsstring" where
  "filter_deps st = (searchTerm st, selectedGenre st, selectedYear st, selectedRating st)"

definition reset_page_effect :: "'a HomeState \<Rightarrow> 'a HomeState \<Rightarrow> 'a HomeState" where
  "reset_page_effect prev cur =
     (if filter_deps cur \<noteq> filter_deps prev then cur\<lparr>currentPage := 1\<rparr> else cur)"

text \<open>
  The renders that React commits after an event, in their order. The first has the
  state as the event's handler updated it (the state as it was, when the handler
  changes nothing). Its effects run after it is committed, and when they change the
  state a second render follows with that state; the filter fields of the second are
  those of the first, so no effect runs again. The effect that writes the four filter
  fields into the URL changes no state of \<^verbatim>\<open>Home\<close>: what it writes (\<open>searchParams_of\<close>) is
  read back by \<open>SearchParamsChanged\<close> as the same four fields.
\<close>

definition commits :: "'a event \<Rightarrow> 'a HomeState \<Rightarrow> 'a HomeState list" where
  "commits e st =
     (let cur = dispatch e st; nxt = reset_page_effect st cur
      in if nxt = cur then [cur] else [cur, nxt])"

subsection \<open>Detail lookup (\<^verbatim>\<open>MovieDetail\<close>)\<close>

text \<open>
  The state of \<^verbatim>\<open>MovieDetail\<close>, and what the request for \<^verbatim>\<open>/data/movies.json\<close> can
  come to: \<^verbatim>\<open>fetch\<close> or \<^verbatim>\<open>response.json()\<close> throws an error with a message, the
  response is not \<^verbatim>\<open>ok\<close>, or the document arrives.
\<close>

record 'a MovieDetailState =
  movie :: "'a Movie_scheme option"
  loading :: bool
  error :: "jsstring option"

datatype 'a response = Rejected jsstring | NotOk | Json "'a MoviesData"

definition initial_detail :: "'a MovieDetailState" where
  "initial_detail = \<lparr>movie = None, loading = True, error = None\<rparr>"

text \<open>
  \<^verbatim>\<open>loadMovie\<close>, with its \<^verbatim>\<open>try\<close>, \<^verbatim>\<open>catch\<close> and \<^verbatim>\<open>finally\<close>. The built-in
  \<^verbatim>\<open>decodeURIComponent\<close> is a parameter: \<open>Inr\<close> the decoded string, or \<open>Inl\<close> the
  message of the \<^verbatim>\<open>URIError\<close> it throws on a malformed escape sequence.
  \<^verbatim>\<open>Array.prototype.find\<close> is \<^const>\<open>find\<close>: the first element, from the left, that
  satisfies the test.
\<close>

definition loadMovie ::
  "(jsstring \<Rightarrow> jsstring + jsstring) \<Rightarrow> 'a response \<Rightarrow> jsstring \<Rightarrow> 'a MovieDetailState \<Rightarrow>
   'a MovieDetailState" where
  "loadMovie decodeURIComponent resp titleParam st =
     (case resp of
        Rejected msg \<Rightarrow> st\<lparr>loading := False, error := Some msg\<rparr>
      | NotOk \<Rightarrow> st\<lparr>loading := False, error := Some (js ''Failed to load movies'')\<rparr>
      | Json data \<Rightarrow>
          (case decodeURIComponent titleParam of
             Inl msg \<Rightarrow> st\<lparr>loading := False, error := Some msg\<rparr>
           | Inr decodedTitle \<Rightarrow>
               (case find (\<lambda>m. toLowerCase (title m) = toLowerCase decodedTitle)
                       (movies data) of
                  Some foundMovie \<Rightarrow> st\<lparr>movie := Some foundMovie, loading := False\<rparr>
                | None \<Rightarrow> st\<lparr>loading := False, error := Some (js ''Movie not found'')\<rparr>)))"

text \<open>
  The effect of \<^verbatim>\<open>MovieDetail\<close> runs \<^verbatim>\<open>loadMovie\<close> only for a title parameter that is
  there and not empty (\<^verbatim>\<open>if (title)\<close>).
\<close>

definition detail_effect ::
  "(jsstring \<Rightarrow> jsstring + jsstring) \<Rightarrow> 'a response \<Rightarrow> jsstring option \<Rightarrow> 'a MovieDetailState \<Rightarrow>
   'a MovieDetailState" where
  "detail_effect decodeURIComponent resp titleParam st =
     (case titleParam of
        None \<Rightarrow> st
      | Some t \<Rightarrow> if t = [] then st else loadMovie decodeURIComponent resp t st)"

text \<open>
  What \<^verbatim>\<open>MovieDetail\<close> renders: the spinner while loading; the message
  \<^verbatim>\<open>error || "Movie not found"\<close> when \<^verbatim>\<open>error || !movie\<close>; the record otherwise. A string
  is truthy when it is not empty.
\<close>

datatype 'a view = LoadingView | ErrorView jsstring | DetailView "'a Movie_scheme"

definition render :: "'a MovieDetailState \<Rightarrow> 'a view" where
  "render st =
     (if loading st then LoadingView
      else (case error st of
              Some e \<Rightarrow>
                if e \<noteq> [] then ErrorView e
                else (case movie st of
                        None \<Rightarrow> ErrorView (js ''Movie not found'')
                      | Some m \<Rightarrow> DetailView m)
            | None \<Rightarrow>
                (case movie st of
                   None \<Rightarrow> ErrorView (js ''Movie not found'')
                 | Some m \<Rightarrow> DetailView m)))"

text \<open>
  Two titles are equal up to case, as the lookup compares them, when their lower-case
  forms are the same string.
\<close>

definition same_up_to_case :: "jsstring \<Rightarrow> jsstring \<Rightarrow> bool" where
  "same_up_to_case a b = (toLowerCase a = toLowerCase b)"

subsection \<open>Sample data\<close>

definition mk_movie :: "jsstring \<Rightarrow> jsstring \<Rightarrow> jsstring \<Rightarrow> jsstring list \<Rightarrow> Movie" where
  "mk_movie t y r gs =
     \<lparr>title = t, year = y, rating = r, genres = gs,
      url = [], image_url = [], video_source = []\<rparr>"

definition abc_catalog :: "unit MoviesData" where
  "abc_catalog =
     \<lparr>total_movies = 3,
      movies = [mk_movie (js ''A'') (js ''2000'') (js ''PG'') [js ''Drama''],
                mk_movie (js ''B'') (js ''2001'') (js ''R'') [js ''Action'', js ''Drama''],
                mk_movie (js ''C'') (js ''2000'') (js ''PG-13'') [js ''Comedy'']]\<rparr>"

definition home_state :: "'a MoviesData option \<Rightarrow> jsstring \<Rightarrow> jsstring \<Rightarrow> jsstring \<Rightarrow> jsstring \<Rightarrow>
    'a HomeState" where
  "home_state d s g y r =
     \<lparr>moviesData = d, currentPage = 1, searchTerm = s, selectedGenre = g,
      selectedYear = y, selectedRating = r\<rparr>"

definition numbered_catalog :: "nat \<Rightarrow> unit MoviesData" where
  "numbered_catalog n =
     \<lparr>total_movies = int n,
      movies = map (\<lambda>i. mk_movie (replicate (Suc i) 0x78) (js ''2000'') (js ''PG'') []) [0..<n]\<rparr>"

definition page3_state :: "unit HomeState" where
  "page3_state = (home_state (Some (numbered_catalog 45)) [] [] [] []) \<lparr>currentPage := 3\<rparr>"

definition beyond_state :: "unit HomeState" where
  "beyond_state = (home_state (Some abc_catalog) [] [] [] []) \<lparr>currentPage := 2\<rparr>"

definition no_match_state :: "unit HomeState" where
  "no_match_state = home_state (Some abc_catalog) (js ''zzz'') [] [] []"

text \<open>
  Sample data of the detail route. \<open>decode_plain\<close> stands for \<^verbatim>\<open>decodeURIComponent\<close> on
  strings without an escape sequence: a string without the character \<^verbatim>\<open>%\<close> decodes to
  itself, and a \<^verbatim>\<open>%\<close> that two hexadecimal digits do not follow makes the built-in throw
  a \<^verbatim>\<open>URIError\<close>, whose message is \<^verbatim>\<open>URI malformed\<close> in V8. It is used on such strings
  only.
\<close>

definition decode_plain :: "jsstring \<Rightarrow> jsstring + jsstring" where
  "decode_plain s = (if 0x25 \<in> set s then Inl (js ''URI malformed'') else Inr s)"

definition mk_detail :: "jsstring \<Rightarrow> jsstring \<Rightarrow> jsstring \<Rightarrow> MovieWithDescription" where
  "mk_detail t y d =
     \<lparr>title = t, year = y, rating = js ''R'', genres = [js ''Horror''], url = [], image_url = [],
      video_source = [], description = d\<rparr>"

definition alien_catalog :: "\<lparr>description :: jsstring\<rparr> MoviesData" where
  "alien_catalog =
     \<lparr>total_movies = 3,
      movies = [mk_detail (js ''Heat'') (js ''1995'') (js ''heist''),
                mk_detail (js ''Alien'') (js ''1979'') (js ''first''),
                mk_detail (js ''ALIEN'') (js ''2020'') (js ''second'')]\<rparr>"

text \<open>
  A catalogue with one Greek title, the word of the four capitals U+039F U+0394 U+039F
  U+03A3, which ends in a capital sigma.
\<close>

definition odos_catalog :: "unit MoviesData" where
  "odos_catalog =
     \<lparr>total_movies = 1,
      movies = [mk_movie [0x39F, 0x394, 0x39F, 0x3A3] (js ''2004'') (js ''PG'') [js ''Drama'']]\<rparr>"

definition drama_state :: "unit HomeState" where
  "drama_state = page3_state \<lparr>selectedGenre := js ''Drama''\<rparr>"

definition wolf_catalog :: "\<lparr>description :: jsstring\<rparr> MoviesData" where
  "wolf_catalog =
     \<lparr>total_movies = 1,
      movies = [mk_detail (js ''100% Wolf'') (js ''2020'') (js ''cartoon'')]\<rparr>"

section \<open>Properties\<close>

subsection \<open>Filtering\<close>

lemma js_Nil [simp]: "js [] = []"
  by (simp add: js_def)

lemma js_Cons [simp]: "js (c # cs) = of_nat (of_char c) # js cs"
  by (simp add: js_def)

lemmas eval_defs =
  js_def toLowerCase_def simpleLower_def final_sigma_def isCased_def isCaseIgnorable_def
  includes_arr_def matchesSearch_def matchesGenre_def matchesYear_def matchesRating_def
  filteredMovies_def mk_movie_def abc_catalog_def home_state_def

lemma count_list_filter_le: "count_list (filter P xs) m \<le> count_list xs m"
  by (induction xs) auto

text \<open>
  C5. The filtered list is a subsequence of the catalogue in its order: every
  surviving record is a record of the catalogue, no record occurs more often than in
  the catalogue, and the survivors keep their relative order. For a catalogue of three
  records with the years 2000, 2001, 2000, the year filter 2000 with every other field
  empty returns the first and the third record, in that order (with the titles A, B, C
  that is A, C).
\<close>

theorem filteredMovies_subsequence:
  assumes "moviesData st = Some d"
  shows "subseq (filteredMovies st) (movies d) \<and>
         set (filteredMovies st) \<subseteq> set (movies d) \<and>
         (\<forall>m. count_list (filteredMovies st) m \<le> count_list (movies d) m) \<and>
         (movies d = [a, b, c] \<and> year a = js ''2000'' \<and> year b = js ''2001'' \<and> year c = js ''2000'' \<and>
          searchTerm st = [] \<and> selectedGenre st = [] \<and> selectedYear st = js ''2000'' \<and>
          selectedRating st = [] \<longrightarrow> filteredMovies st = [a, c])"
proof -
  have "subseq (filteredMovies st) (movies d)"
    using assms by (simp add: filteredMovies_def)
  moreover have "set (filteredMovies st) \<subseteq> set (movies d)"
    using assms by (auto simp: filteredMovies_def)
  moreover have "\<forall>m. count_list (filteredMovies st) m \<le> count_list (movies d) m"
    using assms by (simp add: filteredMovies_def count_list_filter_le)
  moreover have "movies d = [a, b, c] \<and> year a = js ''2000'' \<and> year b = js ''2001'' \<and>
      year c = js ''2000'' \<and> searchTerm st = [] \<and> selectedGenre st = [] \<and>
      selectedYear st = js ''2000'' \<and> selectedRating st = [] \<longrightarrow> filteredMovies st = [a, c]"
    using assms
    by (simp add: filteredMovies_def matchesSearch_def matchesGenre_def matchesYear_def
        matchesRating_def)
  ultimately show ?thesis by blast
qed

theorem filteredMovies_subsequence_witness:
  "moviesData (home_state (Some abc_catalog) [] [] (js ''2000'') []) = Some abc_catalog \<and>
   map title (movies abc_catalog) = [js ''A'', js ''B'', js ''C''] \<and>
   map year (movies abc_catalog) = [js ''2000'', js ''2001'', js ''2000''] \<and>
   map title (filteredMovies (home_state (Some abc_catalog) [] [] (js ''2000'') [])) = [js ''A'', js ''C''] \<and>
   subseq (filteredMovies (home_state (Some abc_catalog) [] [] (js ''2000'') [])) (movies abc_catalog)"
proof -
  let ?st = "home_state (Some abc_catalog) [] [] (js ''2000'') [] :: unit HomeState"
  let ?a = "mk_movie (js ''A'') (js ''2000'') (js ''PG'') [js ''Drama'']"
  let ?b = "mk_movie (js ''B'') (js ''2001'') (js ''R'') [js ''Action'', js ''Drama'']"
  let ?c = "mk_movie (js ''C'') (js ''2000'') (js ''PG-13'') [js ''Comedy'']"
  have h: "moviesData ?st = Some abc_catalog"
    by (simp add: home_state_def)
  have m: "movies abc_catalog = [?a, ?b, ?c]"
    by (simp add: abc_catalog_def)
  have y: "year ?a = js ''2000'' \<and> year ?b = js ''2001'' \<and> year ?c = js ''2000''"
    by (simp add: mk_movie_def)
  have k: "searchTerm ?st = [] \<and> selectedGenre ?st = [] \<and> selectedYear ?st = js ''2000'' \<and>
      selectedRating ?st = []"
    by (simp add: home_state_def)
  have "filteredMovies ?st = [?a, ?c]"
    using filteredMovies_subsequence [OF h, of ?a ?b ?c] m y k by blast
  moreover have "subseq (filteredMovies ?st) (movies abc_catalog)"
    using filteredMovies_subsequence [OF h, of ?a ?b ?c] by blast
  ultimately show ?thesis
    using h m by (simp add: mk_movie_def)
qed

text \<open>
  C6. With the four filter fields all empty, the filtered list is the whole catalogue,
  element for element in the same order.
\<close>

theorem all_empty_criteria_identity:
  assumes "moviesData st = Some d"
    and "searchTerm st = []" and "selectedGenre st = []"
    and "selectedYear st = []" and "selectedRating st = []"
  shows "filteredMovies st = movies d"
  using assms
  by (simp add: filteredMovies_def matchesSearch_def matchesGenre_def matchesYear_def
      matchesRating_def)

theorem all_empty_criteria_identity_witness:
  "moviesData (home_state (Some abc_catalog) [] [] [] []) = Some abc_catalog \<and>
   searchTerm (home_state (Some abc_catalog) [] [] [] []) = [] \<and>
   selectedGenre (home_state (Some abc_catalog) [] [] [] []) = [] \<and>
   selectedYear (home_state (Some abc_catalog) [] [] [] []) = [] \<and>
   selectedRating (home_state (Some abc_catalog) [] [] [] []) = [] \<and>
   filteredMovies (home_state (Some abc_catalog) [] [] [] []) = movies abc_catalog \<and>
   map title (filteredMovies (home_state (Some abc_catalog) [] [] [] [])) = [js ''A'', js ''B'', js ''C'']"
proof -
  let ?st = "home_state (Some abc_catalog) [] [] [] [] :: unit HomeState"
  have h: "moviesData ?st = Some abc_catalog"
    and s: "searchTerm ?st = []" and g: "selectedGenre ?st = []"
    and y: "selectedYear ?st = []" and r: "selectedRating ?st = []"
    by (simp_all add: home_state_def)
  have "filteredMovies ?st = movies abc_catalog"
    by (rule all_empty_criteria_identity [OF h s g y r])
  then show ?thesis
    using h s g y r by (simp add: abc_catalog_def mk_movie_def)
qed

text \<open>
  C1. The filter is to keep exactly the records for which the four conditions hold, the
  first being that the search term is empty or a case-insensitive substring of the
  title. The code lower-cases the title and the search term and looks for the one in
  the other; lower-casing depends on the position of a capital sigma, and the search
  drops a record whose title contains the search term letter for letter. For the title
  of the four capitals U+039F U+0394 U+039F U+03A3 and the search term U+03A3: the title
  ends in the search term; the lower-cased title ends in the final sigma U+03C2, the
  lower-cased search term is the small sigma U+03C3; the filtered list is empty.
\<close>

theorem search_misses_final_sigma:
  "map title (movies odos_catalog) = [[0x39F, 0x394, 0x39F, 0x3A3]] \<and>
   includes_str [0x39F, 0x394, 0x39F, 0x3A3] [0x3A3] \<and>
   toLowerCase [0x39F, 0x394, 0x39F, 0x3A3] = [0x3BF, 0x3B4, 0x3BF, 0x3C2] \<and>
   toLowerCase [0x3A3] = [0x3C3] \<and>
   filteredMovies (home_state (Some odos_catalog) [] [] [] []) = movies odos_catalog \<and>
   filteredMovies (home_state (Some odos_catalog) [0x3A3] [] [] []) = []"
proof -
  have t: "toLowerCase [0x39F, 0x394, 0x39F, 0x3A3] = [0x3BF, 0x3B4, 0x3BF, 0x3C2]"
    by (simp add: toLowerCase_def simpleLower_def final_sigma_def isCased_def
        isCaseIgnorable_def)
  have s: "toLowerCase [0x3A3] = [0x3C3]"
    by (simp add: toLowerCase_def final_sigma_def)
  have i: "includes_str [0x39F, 0x394, 0x39F, 0x3A3] [0x3A3 :: code_unit]"
    by simp
  have a: "filteredMovies (home_state (Some odos_catalog) [] [] [] []) = movies odos_catalog"
    by (simp add: filteredMovies_def home_state_def matchesSearch_def matchesGenre_def
        matchesYear_def matchesRating_def)
  have f: "filteredMovies (home_state (Some odos_catalog) [0x3A3] [] [] []) = []"
    by (simp add: filteredMovies_def home_state_def odos_catalog_def mk_movie_def
        matchesSearch_def t s)
  have m: "map title (movies odos_catalog) = [[0x39F, 0x394, 0x39F, 0x3A3]]"
    by (simp add: odos_catalog_def mk_movie_def)
  show ?thesis
    by (intro conjI m i t s a f)
qed

subsection \<open>Pagination\<close>

lemma upto_as_upt: "[1..int k] = map (\<lambda>i. int i + 1) [0..<k]"
proof (induction k)
  case 0
  show ?case by simp
next
  case (Suc k)
  have "[1..int (Suc k)] = [1..int k] @ [int k + 1]"
    by (simp add: upto_rec2)
  then show ?case using Suc by simp
qed

lemma concat_chunks: "concat (map (\<lambda>i. take n (drop (i * n) xs)) [0..<k]) = take (k * n) xs"
proof (induction k)
  case 0
  show ?case by simp
next
  case (Suc k)
  have "Suc k * n = k * n + n" by simp
  then have "take (Suc k * n) xs = take (k * n) xs @ take n (drop (k * n) xs)"
    by (simp only: take_add)
  with Suc show ?case by simp
qed

lemma slice_page:
  assumes "0 < P" "1 \<le> p"
  shows "currentMovies_for P xs p = take (nat P) (drop (nat (p - 1) * nat P) xs)"
proof -
  have nn: "0 \<le> (p - 1) * P" using assms by simp
  have m: "nat ((p - 1) * P) = nat (p - 1) * nat P"
    using assms by (simp add: nat_mult_distrib)
  show ?thesis
  proof (cases "(p - 1) * P \<le> int (length xs)")
    case True
    then show ?thesis
      using assms nn m
      by (auto simp add: currentMovies_for_def slice_def startIndex_for_def endIndex_for_def Let_def min_def)
  next
    case False
    then show ?thesis
      using assms nn m
      by (auto simp add: currentMovies_for_def slice_def startIndex_for_def endIndex_for_def Let_def min_def)
  qed
qed

lemma take_drop_nth: "take n (drop k xs) = map (nth xs) [k..<min (k + n) (length xs)]"
  by (rule nth_equalityI) auto

lemma totalPages_for_bounds:
  assumes "0 < P"
  shows "(totalPages_for P xs - 1) * P < int (length xs)"
    and "int (length xs) \<le> totalPages_for P xs * P"
    and "0 \<le> totalPages_for P xs"
proof -
  have P: "0 < real_of_int P" using assms by simp
  have "(real_of_int (totalPages_for P xs) - 1) * real_of_int P < real (length xs)"
    unfolding totalPages_for_def by (rule ceiling_divide_lower [OF P])
  then have "real_of_int ((totalPages_for P xs - 1) * P) < real_of_int (int (length xs))"
    by simp
  then show "(totalPages_for P xs - 1) * P < int (length xs)"
    by (simp only: of_int_less_iff)
  have "real (length xs) \<le> real_of_int (totalPages_for P xs) * real_of_int P"
    unfolding totalPages_for_def by (rule ceiling_divide_upper [OF P])
  then have "real_of_int (int (length xs)) \<le> real_of_int (totalPages_for P xs * P)"
    by simp
  then show "int (length xs) \<le> totalPages_for P xs * P"
    by (simp only: of_int_le_iff)
  have "0 \<le> real (length xs) / real_of_int P" using P by simp
  then show "0 \<le> totalPages_for P xs"
    unfolding totalPages_for_def by (simp add: ceiling_le_iff [symmetric] le_ceiling_iff)
qed

lemma pages_concat:
  assumes "0 < P"
  shows "concat (map (currentMovies_for P xs) [1..totalPages_for P xs]) = xs"
proof -
  let ?n = "totalPages_for P xs"
  have n0: "0 \<le> ?n" by (rule totalPages_for_bounds(3) [OF assms])
  have "[1..?n] = map (\<lambda>i. int i + 1) [0..<nat ?n]"
    using upto_as_upt [of "nat ?n"] n0 by simp
  then have "concat (map (currentMovies_for P xs) [1..?n]) =
      concat (map (\<lambda>i. currentMovies_for P xs (int i + 1)) [0..<nat ?n])"
    by (simp add: comp_def)
  also have "\<dots> = concat (map (\<lambda>i. take (nat P) (drop (i * nat P) xs)) [0..<nat ?n])"
    using assms by (simp add: slice_page)
  also have "\<dots> = take (nat ?n * nat P) xs"
    by (rule concat_chunks)
  also have "\<dots> = xs"
  proof -
    have "int (length xs) \<le> ?n * P" by (rule totalPages_for_bounds(2) [OF assms])
    then have "length xs \<le> nat (?n * P)" by simp
    also have "nat (?n * P) = nat ?n * nat P"
      using n0 assms by (simp add: nat_mult_distrib)
    finally show ?thesis by simp
  qed
  finally show ?thesis .
qed

lemma currentMovies_for_range:
  assumes "0 < P" "1 \<le> p"
  shows "currentMovies_for P xs p =
    map (nth xs) [nat ((p - 1) * P)..<min (nat (p * P)) (length xs)]"
proof -
  have a: "nat (p - 1) * nat P = nat ((p - 1) * P)"
    using assms by (simp add: nat_mult_distrib)
  have "(p - 1) * P + P = p * P" by (simp add: algebra_simps)
  then have b: "nat ((p - 1) * P) + nat P = nat (p * P)"
    using assms by (simp add: nat_add_distrib [symmetric])
  show ?thesis
    by (simp only: slice_page [OF assms] take_drop_nth a b)
qed

lemma filteredMovies_currentPage:
  "filteredMovies (st\<lparr>currentPage := p\<rparr>) = filteredMovies st"
  by (simp add: filteredMovies_def matchesSearch_def matchesGenre_def matchesYear_def
      matchesRating_def split: option.splits)

lemma program_pages_concat:
  "concat (map (\<lambda>p. currentMovies (st\<lparr>currentPage := p\<rparr>)) [1..totalPages st]) =
     filteredMovies st"
proof -
  have "(\<lambda>p. currentMovies (st\<lparr>currentPage := p\<rparr>)) =
      currentMovies_for MOVIES_PER_PAGE (filteredMovies st)"
    by (rule ext) (simp add: currentMovies_def filteredMovies_currentPage)
  then show ?thesis
    unfolding totalPages_def by (simp add: pages_concat MOVIES_PER_PAGE_def)
qed

text \<open>
  C2. For every filtered list of length \<open>L\<close> and every page size \<open>P > 0\<close> (the program
  has \<open>P = 20\<close>): the page count \<open>n\<close> is the ceiling of \<open>L / P\<close>, the one integer with
  \<open>(n - 1) * P < L \<le> n * P\<close>; the slice of page \<open>p \<ge> 1\<close> holds the elements at the indices
  from \<open>(p - 1) * P\<close> up to, not including, \<open>p * P\<close>, clipped to the length of the list;
  the slices of the pages \<open>1\<close> to \<open>n\<close>, one after the other, are the list itself, so they
  neither overlap nor skip an element, and their lengths add up to \<open>L\<close>. The same holds
  of the program's own \<^verbatim>\<open>currentMovies\<close> over the pages \<open>1\<close> to \<^verbatim>\<open>totalPages\<close>. In the
  program, a filtered list of 45 records has 3 pages and page 3 shows the 5 records at
  the indices 40 to 44.
\<close>

theorem pagination_partition:
  assumes "0 < P"
  shows "(totalPages_for P xs - 1) * P < int (length xs) \<and>
         int (length xs) \<le> totalPages_for P xs * P \<and>
         (\<forall>p\<ge>1. currentMovies_for P xs p =
            map (nth xs) [nat ((p - 1) * P)..<min (nat (p * P)) (length xs)]) \<and>
         concat (map (currentMovies_for P xs) [1..totalPages_for P xs]) = xs \<and>
         sum_list (map (\<lambda>p. length (currentMovies_for P xs p)) [1..totalPages_for P xs]) =
           length xs \<and>
         concat (map (\<lambda>p. currentMovies (st\<lparr>currentPage := p\<rparr>)) [1..totalPages st]) =
           filteredMovies st \<and>
         (length (filteredMovies st) = 45 \<longrightarrow>
            totalPages st = 3 \<and>
            (currentPage st = 3 \<longrightarrow>
               currentMovies st = map (nth (filteredMovies st)) [40..<45] \<and>
               length (currentMovies st) = 5))"
proof -
  have c: "concat (map (currentMovies_for P xs) [1..totalPages_for P xs]) = xs"
    by (rule pages_concat [OF assms])
  have "sum_list (map (\<lambda>p. length (currentMovies_for P xs p)) [1..totalPages_for P xs]) =
      length (concat (map (currentMovies_for P xs) [1..totalPages_for P xs]))"
    by (simp add: length_concat comp_def)
  then have s: "sum_list (map (\<lambda>p. length (currentMovies_for P xs p))
      [1..totalPages_for P xs]) = length xs"
    by (simp only: c)
  have r: "\<forall>p\<ge>1. currentMovies_for P xs p =
      map (nth xs) [nat ((p - 1) * P)..<min (nat (p * P)) (length xs)]"
    using currentMovies_for_range [OF assms] by blast
  have sc: "length (filteredMovies st) = 45 \<longrightarrow>
      totalPages st = 3 \<and>
      (currentPage st = 3 \<longrightarrow>
         currentMovies st = map (nth (filteredMovies st)) [40..<45] \<and>
         length (currentMovies st) = 5)"
  proof (intro impI conjI)
    assume L: "length (filteredMovies st) = 45"
    show "totalPages st = 3"
      by (simp add: totalPages_def totalPages_for_def MOVIES_PER_PAGE_def L)
    assume p: "currentPage st = 3"
    have "currentMovies st = map (nth (filteredMovies st))
        [nat ((3 - 1) * 20)..<min (nat (3 * 20)) (length (filteredMovies st))]"
      unfolding currentMovies_def MOVIES_PER_PAGE_def p
      by (rule currentMovies_for_range) simp_all
    then show "currentMovies st = map (nth (filteredMovies st)) [40..<45]"
      by (simp add: L)
    then show "length (currentMovies st) = 5"
      by simp
  qed
  show ?thesis
    using totalPages_for_bounds(1,2) [OF assms, of xs] r c s program_pages_concat [of st] sc
    by blast
qed

theorem pagination_partition_witness:
  "(0::int) < 20 \<and>
   length (filteredMovies page3_state) = 45 \<and>
   currentPage page3_state = 3 \<and>
   totalPages page3_state = 3 \<and>
   totalPages_for 20 (filteredMovies page3_state) = 3 \<and>
   currentMovies page3_state = map (nth (filteredMovies page3_state)) [40..<45] \<and>
   length (currentMovies page3_state) = 5 \<and>
   concat (map (currentMovies_for 20 (filteredMovies page3_state)) [1..3]) =
     filteredMovies page3_state"
proof -
  have h: "(0::int) < 20" by simp
  have L: "length (filteredMovies page3_state) = 45"
    by (simp add: page3_state_def home_state_def numbered_catalog_def filteredMovies_def
        matchesSearch_def matchesGenre_def matchesYear_def matchesRating_def)
  have p: "currentPage page3_state = 3"
    by (simp add: page3_state_def)
  have t: "totalPages_for 20 (filteredMovies page3_state) = 3"
    by (simp add: totalPages_for_def L)
  show ?thesis
    using pagination_partition [OF h, of "filteredMovies page3_state" page3_state] L p t
    by simp
qed

text \<open>
  C9. Nothing clamps the page number and nothing checks bounds, and the slice is
  defined all the same: \<^verbatim>\<open>slice\<close> does not throw, and for every page number \<open>p \<ge> 1\<close> the
  visible page is the segment of at most 20 records that starts at index
  \<open>(p - 1) * 20\<close>. When that index is at or beyond the end of the filtered list the
  page is the empty list; for the empty filtered list the page count is 0 and the
  page is empty.
\<close>

theorem pagination_total:
  assumes "1 \<le> currentPage st"
  shows "currentMovies st =
           take 20 (drop (nat ((currentPage st - 1) * 20)) (filteredMovies st)) \<and>
         (int (length (filteredMovies st)) \<le> (currentPage st - 1) * 20 \<longrightarrow>
            currentMovies st = []) \<and>
         (filteredMovies st = [] \<longrightarrow> totalPages st = 0 \<and> currentMovies st = [])"
proof -
  have "nat (currentPage st - 1) * nat 20 = nat ((currentPage st - 1) * 20)"
    using assms by (simp add: nat_mult_distrib)
  then have seg: "currentMovies st =
      take 20 (drop (nat ((currentPage st - 1) * 20)) (filteredMovies st))"
    unfolding currentMovies_def MOVIES_PER_PAGE_def
    using slice_page [of 20 "currentPage st" "filteredMovies st"] assms by simp
  have "int (length (filteredMovies st)) \<le> (currentPage st - 1) * 20 \<longrightarrow>
      currentMovies st = []"
    by (simp add: seg)
  moreover have "filteredMovies st = [] \<longrightarrow> totalPages st = 0 \<and> currentMovies st = []"
    by (simp add: seg totalPages_def totalPages_for_def)
  ultimately show ?thesis
    using seg by blast
qed

theorem pagination_total_witness:
  "1 \<le> currentPage beyond_state \<and>
   int (length (filteredMovies beyond_state)) \<le> (currentPage beyond_state - 1) * 20 \<and>
   length (filteredMovies beyond_state) = 3 \<and>
   currentMovies beyond_state = [] \<and>
   1 \<le> currentPage no_match_state \<and>
   filteredMovies no_match_state = [] \<and>
   totalPages no_match_state = 0 \<and>
   currentMovies no_match_state = []"
proof -
  have p: "1 \<le> currentPage beyond_state"
    by (simp add: beyond_state_def)
  have L: "length (filteredMovies beyond_state) = 3"
    by (simp add: beyond_state_def eval_defs)
  have b: "int (length (filteredMovies beyond_state)) \<le> (currentPage beyond_state - 1) * 20"
    by (simp add: L) (simp add: beyond_state_def)
  have q: "1 \<le> currentPage no_match_state"
    by (simp add: no_match_state_def home_state_def)
  have e: "filteredMovies no_match_state = []"
    by (simp add: no_match_state_def eval_defs)
  show ?thesis
    using pagination_total [OF p] pagination_total [OF q] p L b q e by blast
qed

subsection \<open>Filter options\<close>

lemma set_set_add: "set (set_add s x) = insert x (set s)"
  by (auto simp: set_add_def)

lemma distinct_set_add: "distinct s \<Longrightarrow> distinct (set_add s x)"
  by (simp add: set_add_def)

lemma set_fold_set_add: "set (fold (\<lambda>g s. set_add s g) gs s) = set s \<union> set gs"
  by (induction gs arbitrary: s) (auto simp: set_set_add)

lemma distinct_fold_set_add: "distinct s \<Longrightarrow> distinct (fold (\<lambda>g s. set_add s g) gs s)"
  by (induction gs arbitrary: s) (auto simp: distinct_set_add)

lemma collect_sets:
  "set (allGenres (fold collect_movie ms acc)) = set (allGenres acc) \<union> (\<Union>m \<in> set ms. set (genres m))"
  "set (allYears (fold collect_movie ms acc)) = set (allYears acc) \<union> year ` set ms"
  "set (allRatings (fold collect_movie ms acc)) = set (allRatings acc) \<union> rating ` set ms"
  by (induction ms arbitrary: acc; auto simp: collect_movie_def set_set_add set_fold_set_add)+

lemma collect_distinct:
  "distinct (allGenres acc) \<Longrightarrow> distinct (allGenres (fold collect_movie ms acc))"
  "distinct (allYears acc) \<Longrightarrow> distinct (allYears (fold collect_movie ms acc))"
  "distinct (allRatings acc) \<Longrightarrow> distinct (allRatings (fold collect_movie ms acc))"
  by (induction ms arbitrary: acc; simp add: collect_movie_def distinct_set_add distinct_fold_set_add)+

lemma set_insert_sorted: "set (insert_sorted f x ys) = insert x (set ys)"
  by (induction ys) auto

lemma distinct_insert_sorted: "distinct (insert_sorted f x ys) \<longleftrightarrow> x \<notin> set ys \<and> distinct ys"
  by (induction ys) (auto simp: set_insert_sorted)

lemma set_sort_with: "set (sort_with f xs) = set xs"
  by (induction xs) (simp_all add: sort_with_def set_insert_sorted)

lemma distinct_sort_with: "distinct (sort_with f xs) \<longleftrightarrow> distinct xs"
  by (induction xs) (simp_all add: sort_with_def distinct_insert_sorted set_sort_with [unfolded sort_with_def])

lemma digit_facts:
  assumes "0x30 \<le> c" "c \<le> 0x39"
  shows "\<not> isWhiteSpace c" "c \<noteq> 0x2D" "c \<noteq> 0x2B" "c \<noteq> 0x78" "c \<noteq> 0x58"
    "isRadixDigit 10 c" "digitValue c = unat c - 48"
  using assms
  by (auto simp: isWhiteSpace_def isRadixDigit_def digitValue_def word_le_nat_alt)

lemma parseInt_samples:
  "parseInt (js ''1999'') = Some 1999"
  "parseInt (js '' -12abc'') = Some (- 12)"
  "parseInt (js ''+7'') = Some 7"
  "parseInt (js ''0x1F'') = Some 31"
  "parseInt (js ''TBA'') = None"
  by (simp_all add: parseInt_def isWhiteSpace_def isRadixDigit_def digitValue_def Let_def)

lemma parseInt_year:
  assumes "is_year y"
  shows "parseInt y = Some (int (decimal_value y))"
proof -
  from assms obtain a b c d where y: "y = [a, b, c, d]"
    by (auto simp: is_year_def length_Suc_conv numeral_eq_Suc)
  have da: "0x30 \<le> a" "a \<le> 0x39" and db: "0x30 \<le> b" "b \<le> 0x39"
    and dc: "0x30 \<le> c" "c \<le> 0x39" and dd: "0x30 \<le> d" "d \<le> 0x39"
    using assms by (simp_all add: is_year_def y)
  show ?thesis
    unfolding y parseInt_def decimal_value_def
    by (simp add: Let_def js_def digit_facts [OF da] digit_facts [OF db] digit_facts [OF dc]
        digit_facts [OF dd] algebra_simps)
qed

lemma sorted_insert_sorted_number:
  assumes "is_number x" "\<forall>y \<in> set ys. is_number y"
    and "sorted_wrt numeric_desc ys"
  shows "sorted_wrt numeric_desc (insert_sorted yearCompare x ys)"
  using assms
proof (induction ys)
  case Nil
  then show ?case by simp
next
  case (Cons y ys)
  from Cons.prems obtain nx ny where nx: "parseInt x = Some nx" and ny: "parseInt y = Some ny"
    by (auto simp: is_number_def split: option.splits)
  have c: "sortCompare yearCompare x y = ny - nx"
    by (simp add: sortCompare_def yearCompare_def nx ny)
  show ?case
  proof (cases "sortCompare yearCompare x y \<le> 0")
    case True
    then have xy: "numeric_desc x y"
      using c by (simp add: numeric_desc_def nx ny)
    have "\<forall>z \<in> set ys. numeric_desc x z"
    proof
      fix z assume z: "z \<in> set ys"
      then have "numeric_desc y z" using Cons.prems(3) by simp
      moreover obtain nz where "parseInt z = Some nz"
        using Cons.prems(2) z by (auto simp: is_number_def split: option.splits)
      ultimately show "numeric_desc x z"
        using xy by (simp add: numeric_desc_def nx ny)
    qed
    then show ?thesis
      using True xy Cons.prems(3) by simp
  next
    case False
    then have "numeric_desc y x"
      using c by (simp add: numeric_desc_def nx ny)
    then show ?thesis
      using False Cons by (auto simp: set_insert_sorted)
  qed
qed

lemma sorted_sort_with_number:
  assumes "\<forall>y \<in> set ys. is_number y"
  shows "sorted_wrt numeric_desc (sort_with yearCompare ys)"
  using assms
proof (induction ys)
  case Nil
  show ?case by (simp add: sort_with_def)
next
  case (Cons y ys)
  have "sorted_wrt numeric_desc (insert_sorted yearCompare y (sort_with yearCompare ys))"
    using Cons by (intro sorted_insert_sorted_number) (simp_all add: set_sort_with)
  then show ?case by (simp add: sort_with_def)
qed

lemma decimal_value_year_bound:
  assumes "is_year y"
  shows "decimal_value y < 10000"
proof -
  from assms obtain a b c d where y: "y = [a, b, c, d]"
    by (auto simp: is_year_def length_Suc_conv numeral_eq_Suc)
  have "unat a \<le> 57" "unat b \<le> 57" "unat c \<le> 57" "unat d \<le> 57"
    using assms by (simp_all add: is_year_def y word_le_nat_alt)
  then show ?thesis
    by (simp add: decimal_value_def y)
qed

lemma is_year_is_number: "is_year y \<Longrightarrow> is_number y"
  using decimal_value_year_bound [of y] by (simp add: is_number_def parseInt_year)

lemma numeric_desc_year:
  assumes "is_year a" "is_year b"
  shows "numeric_desc a b \<longleftrightarrow> decimal_desc a b"
  by (simp add: numeric_desc_def decimal_desc_def parseInt_year [OF assms(1)]
      parseInt_year [OF assms(2)])

lemma sorted_sort_with_year:
  assumes "\<forall>y \<in> set ys. is_year y"
  shows "sorted_wrt decimal_desc (sort_with yearCompare ys)"
proof -
  have "sorted_wrt numeric_desc (sort_with yearCompare ys)"
    using assms by (intro sorted_sort_with_number) (simp add: is_year_is_number)
  then show ?thesis
    using assms
    by (rule_tac sorted_wrt_mono_rel [where P = numeric_desc])
      (simp_all add: set_sort_with numeric_desc_year)
qed

lemma sort_lex_less:
  assumes "distinct xs"
  shows "sorted_wrt lex_less (sort xs)"
proof -
  have "sorted_wrt (<) (sort xs)"
    using assms by (simp add: strict_sorted_iff)
  moreover have "(<) = lex_less"
    by (intro ext) (simp add: lex_less_def list_less_def word_less_nat_alt)
  ultimately show ?thesis by simp
qed

lemmas options_eval =
  filterOptions_def home_state_def abc_catalog_def mk_movie_def collect_movie_def
  set_add_def Let_def sort_with_def sortCompare_def yearCompare_def parseInt_def
  isWhiteSpace_def isRadixDigit_def digitValue_def js_def

text \<open>
  C4. For every catalogue the three option lists are free of duplicates; the genres
  are exactly the genres that occur in some record, the years exactly the years of
  the records, the ratings exactly their ratings. The genres and the ratings are in
  ascending lexicographic order. The years are in descending numeric order: for every
  catalogue of the data model, where a year is a string of four decimal digits, they
  are in the descending order of their decimal values, and they are in the descending
  order of the numbers that \<^verbatim>\<open>parseInt\<close> reads whenever it reads a number in every year.
\<close>

theorem filterOptions_distinct_sorted:
  assumes "moviesData st = Some d"
  shows "distinct (genres_options (filterOptions st)) \<and>
         set (genres_options (filterOptions st)) = (\<Union>m \<in> set (movies d). set (genres m)) \<and>
         sorted_wrt lex_less (genres_options (filterOptions st)) \<and>
         distinct (years_options (filterOptions st)) \<and>
         set (years_options (filterOptions st)) = year ` set (movies d) \<and>
         ((\<forall>m \<in> set (movies d). is_number (year m)) \<longrightarrow>
            sorted_wrt numeric_desc (years_options (filterOptions st))) \<and>
         ((\<forall>m \<in> set (movies d). is_year (year m)) \<longrightarrow>
            sorted_wrt decimal_desc (years_options (filterOptions st))) \<and>
         distinct (ratings_options (filterOptions st)) \<and>
         set (ratings_options (filterOptions st)) = rating ` set (movies d) \<and>
         sorted_wrt lex_less (ratings_options (filterOptions st))"
proof -
  define acc where "acc = fold collect_movie (movies d)
    \<lparr>allGenres = [], allYears = [], allRatings = []\<rparr>"
  have fo: "filterOptions st =
      \<lparr>genres_options = sort (allGenres acc),
       years_options = sort_with yearCompare (allYears acc),
       ratings_options = sort (allRatings acc)\<rparr>"
    using assms by (simp add: filterOptions_def acc_def Let_def)
  have dg: "distinct (allGenres acc)" and dy: "distinct (allYears acc)"
    and dr: "distinct (allRatings acc)"
    unfolding acc_def by (simp_all add: collect_distinct)
  have sg: "set (allGenres acc) = (\<Union>m \<in> set (movies d). set (genres m))"
    and sy: "set (allYears acc) = year ` set (movies d)"
    and sr: "set (allRatings acc) = rating ` set (movies d)"
    unfolding acc_def by (simp_all add: collect_sets)
  have g: "distinct (genres_options (filterOptions st)) \<and>
      set (genres_options (filterOptions st)) = (\<Union>m \<in> set (movies d). set (genres m)) \<and>
      sorted_wrt lex_less (genres_options (filterOptions st))"
    by (simp add: fo dg sg sort_lex_less)
  have r: "distinct (ratings_options (filterOptions st)) \<and>
      set (ratings_options (filterOptions st)) = rating ` set (movies d) \<and>
      sorted_wrt lex_less (ratings_options (filterOptions st))"
    by (simp add: fo dr sr sort_lex_less)
  have y: "distinct (years_options (filterOptions st)) \<and>
      set (years_options (filterOptions st)) = year ` set (movies d)"
    by (simp add: fo dy sy distinct_sort_with set_sort_with)
  have yn: "(\<forall>m \<in> set (movies d). is_number (year m)) \<longrightarrow>
      sorted_wrt numeric_desc (years_options (filterOptions st))"
  proof
    assume "\<forall>m \<in> set (movies d). is_number (year m)"
    then have "\<forall>y \<in> set (allYears acc). is_number y"
      by (simp add: sy)
    then have "sorted_wrt numeric_desc (sort_with yearCompare (allYears acc))"
      by (rule sorted_sort_with_number)
    then show "sorted_wrt numeric_desc (years_options (filterOptions st))"
      by (simp add: fo)
  qed
  have yo: "(\<forall>m \<in> set (movies d). is_year (year m)) \<longrightarrow>
      sorted_wrt decimal_desc (years_options (filterOptions st))"
  proof
    assume "\<forall>m \<in> set (movies d). is_year (year m)"
    then have "\<forall>y \<in> set (allYears acc). is_year y"
      by (simp add: sy)
    then have "sorted_wrt decimal_desc (sort_with yearCompare (allYears acc))"
      by (rule sorted_sort_with_year)
    then show "sorted_wrt decimal_desc (years_options (filterOptions st))"
      by (simp add: fo)
  qed
  from g y yn yo r show ?thesis by blast
qed

theorem filterOptions_distinct_sorted_witness:
  "moviesData (home_state (Some abc_catalog) [] [] [] []) = Some abc_catalog \<and>
   list_all is_year (map year (movies abc_catalog)) \<and>
   list_all is_number (map year (movies abc_catalog)) \<and>
   filterOptions (home_state (Some abc_catalog) [] [] [] []) =
     \<lparr>genres_options = [js ''Action'', js ''Comedy'', js ''Drama''],
      years_options = [js ''2001'', js ''2000''],
      ratings_options = [js ''PG'', js ''PG-13'', js ''R'']\<rparr> \<and>
   sorted_wrt lex_less (genres_options (filterOptions (home_state (Some abc_catalog) [] [] [] []))) \<and>
   sorted_wrt numeric_desc (years_options (filterOptions (home_state (Some abc_catalog) [] [] [] []))) \<and>
   sorted_wrt decimal_desc (years_options (filterOptions (home_state (Some abc_catalog) [] [] [] []))) \<and>
   sorted_wrt lex_less (ratings_options (filterOptions (home_state (Some abc_catalog) [] [] [] [])))"
proof -
  let ?st = "home_state (Some abc_catalog) [] [] [] [] :: unit HomeState"
  have h: "moviesData ?st = Some abc_catalog"
    by (simp add: home_state_def)
  have y: "\<forall>m \<in> set (movies abc_catalog). is_year (year m)"
    by (simp add: abc_catalog_def mk_movie_def is_year_def)
  have v: "filterOptions ?st =
     \<lparr>genres_options = [js ''Action'', js ''Comedy'', js ''Drama''],
      years_options = [js ''2001'', js ''2000''],
      ratings_options = [js ''PG'', js ''PG-13'', js ''R'']\<rparr>"
    by (simp add: options_eval)
  have y': "list_all is_year (map year (movies abc_catalog))"
    using y by (simp add: list_all_iff)
  note f = filterOptions_distinct_sorted [OF h]
  have g: "sorted_wrt lex_less (genres_options (filterOptions ?st))"
    and r: "sorted_wrt lex_less (ratings_options (filterOptions ?st))"
    using f by blast+
  have z: "\<forall>m \<in> set (movies abc_catalog). is_number (year m)"
    using y by (simp add: is_year_is_number)
  have z': "list_all is_number (map year (movies abc_catalog))"
    using z by (simp add: list_all_iff)
  have n: "sorted_wrt numeric_desc (years_options (filterOptions ?st))"
    using f z by blast
  have n': "sorted_wrt decimal_desc (years_options (filterOptions ?st))"
    using f y by blast
  show ?thesis
    by (intro conjI h y' z' v g n n' r)
qed

text \<open>
  C3. The filter options depend on the catalogue alone: two states of \<^verbatim>\<open>Home\<close> with
  the same catalogue have the same options, whatever their four filter fields are, and
  setting the filter fields of a state to any values leaves its options as they were.
\<close>

theorem filterOptions_catalog_only:
  assumes "moviesData st = moviesData st'"
  shows "filterOptions st = filterOptions st' \<and>
         filterOptions (st\<lparr>searchTerm := s, selectedGenre := g, selectedYear := y,
           selectedRating := r\<rparr>) = filterOptions st'"
  using assms by (simp add: filterOptions_def)

theorem filterOptions_catalog_only_witness:
  "moviesData (home_state (Some abc_catalog) [] [] [] []) =
     moviesData (home_state (Some abc_catalog) (js ''a'') (js ''Drama'') (js ''2000'') (js ''PG'')) \<and>
   filterOptions (home_state (Some abc_catalog) [] [] [] []) =
     filterOptions (home_state (Some abc_catalog) (js ''a'') (js ''Drama'') (js ''2000'') (js ''PG'')) \<and>
   filterOptions (home_state (Some abc_catalog) (js ''a'') (js ''Drama'') (js ''2000'') (js ''PG'')) =
     \<lparr>genres_options = [js ''Action'', js ''Comedy'', js ''Drama''],
      years_options = [js ''2001'', js ''2000''],
      ratings_options = [js ''PG'', js ''PG-13'', js ''R'']\<rparr>"
proof -
  let ?st = "home_state (Some abc_catalog) [] [] [] [] :: unit HomeState"
  let ?st' = "home_state (Some abc_catalog) (js ''a'') (js ''Drama'') (js ''2000'') (js ''PG'') :: unit HomeState"
  have h: "moviesData ?st = moviesData ?st'"
    by (simp add: home_state_def)
  have v: "filterOptions ?st =
     \<lparr>genres_options = [js ''Action'', js ''Comedy'', js ''Drama''],
      years_options = [js ''2001'', js ''2000''],
      ratings_options = [js ''PG'', js ''PG-13'', js ''R'']\<rparr>"
    by (simp add: options_eval)
  show ?thesis
    using filterOptions_catalog_only [OF h] h v by simp
qed

subsection \<open>Transitions\<close>

lemma searchParams_round_trip: "dispatch (SearchParamsChanged (searchParams_of st)) st = st"
  by (simp add: get_or_empty_def searchParams_of_def js_def)

lemma commits_settle:
  assumes "filter_deps (dispatch e st) \<noteq> filter_deps st"
  shows "currentPage (last (commits e st)) = 1"
proof (cases "dispatch e st\<lparr>currentPage := 1\<rparr> = dispatch e st")
  case True
  then have "currentPage (dispatch e st\<lparr>currentPage := 1\<rparr>) = currentPage (dispatch e st)"
    by simp
  then have "currentPage (dispatch e st) = 1"
    by simp
  then show ?thesis
    using assms True by (simp add: commits_def reset_page_effect_def Let_def)
next
  case False
  then show ?thesis
    using assms by (simp add: commits_def reset_page_effect_def Let_def)
qed

text \<open>
  C8. Every transition that changes one of the four filter fields is to set the page to
  1, and no state right after a change of the criteria is to have another page. The
  code resets the page in an effect, one render late: on page 3, choosing the genre
  Drama commits a render with the genre Drama and the page still 3, and only the render
  after it has the page 1. \<^verbatim>\<open>clearFilters\<close>, which sets the page together with the
  filter fields, commits a single render, with the page 1.
\<close>

theorem criteria_change_stale_page:
  "currentPage page3_state = 3 \<and> selectedGenre page3_state = [] \<and>
   map selectedGenre (commits (SetSelectedGenre (js ''Drama'')) page3_state) =
     [js ''Drama'', js ''Drama''] \<and>
   map currentPage (commits (SetSelectedGenre (js ''Drama'')) page3_state) = [3, 1] \<and>
   map selectedGenre (commits ClearFilters drama_state) = [[]] \<and>
   map currentPage (commits ClearFilters drama_state) = [1]"
  by (simp add: commits_def reset_page_effect_def filter_deps_def clearFilters_def Let_def
      drama_state_def page3_state_def home_state_def js_def)

subsection \<open>Detail lookup\<close>

lemma find_first:
  assumes "xs = pre @ m # post" "P m" "\<forall>x \<in> set pre. \<not> P x"
  shows "find P xs = Some m"
  using assms by (induction pre arbitrary: xs) auto

lemmas detail_eval =
  same_up_to_case_def js_def toLowerCase_def simpleLower_def final_sigma_def
  alien_catalog_def mk_detail_def decode_plain_def

text \<open>
  C7. The lookup is to return the record whose title is the decoded title up to case,
  and to end in the not-found state only when no record matches. The effect runs again
  when the title parameter changes, on the state that the run before has left, and
  nothing clears the error: after the lookup of Matrix, which is not in the catalogue,
  the lookup of heat finds the record Heat and the component still renders
  \<^verbatim>\<open>Movie not found\<close>. The component also decodes the parameter, which the router hands
  over decoded: for the record titled \<^verbatim>\<open>100% Wolf\<close> and that title as the parameter,
  \<^verbatim>\<open>decodeURIComponent\<close> throws and the component renders the message of the error.
\<close>

theorem lookup_stale_error:
  "detail_effect decode_plain (Json alien_catalog) (Some (js ''Matrix'')) initial_detail =
     \<lparr>movie = None, loading = False, error = Some (js ''Movie not found'')\<rparr> \<and>
   same_up_to_case (title (mk_detail (js ''Heat'') (js ''1995'') (js ''heist''))) (js ''heat'') \<and>
   detail_effect decode_plain (Json alien_catalog) (Some (js ''heat''))
       \<lparr>movie = None, loading = False, error = Some (js ''Movie not found'')\<rparr> =
     \<lparr>movie = Some (mk_detail (js ''Heat'') (js ''1995'') (js ''heist'')), loading = False,
      error = Some (js ''Movie not found'')\<rparr> \<and>
   render \<lparr>movie = Some (mk_detail (js ''Heat'') (js ''1995'') (js ''heist'')), loading = False,
      error = Some (js ''Movie not found'')\<rparr> = ErrorView (js ''Movie not found'') \<and>
   map title (movies wolf_catalog) = [js ''100% Wolf''] \<and>
   render (detail_effect decode_plain (Json wolf_catalog) (Some (js ''100% Wolf''))
       initial_detail) = ErrorView (js ''URI malformed'')"
proof -
  have a: "detail_effect decode_plain (Json alien_catalog) (Some (js ''Matrix''))
      initial_detail = \<lparr>movie = None, loading = False, error = Some (js ''Movie not found'')\<rparr>"
    by (simp add: detail_eval detail_effect_def loadMovie_def initial_detail_def)
  have b: "same_up_to_case (title (mk_detail (js ''Heat'') (js ''1995'') (js ''heist'')))
      (js ''heat'')"
    by (simp add: detail_eval)
  have c: "detail_effect decode_plain (Json alien_catalog) (Some (js ''heat''))
       \<lparr>movie = None, loading = False, error = Some (js ''Movie not found'')\<rparr> =
     \<lparr>movie = Some (mk_detail (js ''Heat'') (js ''1995'') (js ''heist'')), loading = False,
      error = Some (js ''Movie not found'')\<rparr>"
    by (simp add: detail_eval detail_effect_def loadMovie_def)
  have d: "render \<lparr>movie = Some (mk_detail (js ''Heat'') (js ''1995'') (js ''heist'')),
      loading = False, error = Some (js ''Movie not found'')\<rparr> =
      ErrorView (js ''Movie not found'')"
    by (simp add: render_def js_def)
  have e: "map title (movies wolf_catalog) = [js ''100% Wolf'']"
    by (simp add: wolf_catalog_def mk_detail_def)
  have f: "render (detail_effect decode_plain (Json wolf_catalog) (Some (js ''100% Wolf''))
       initial_detail) = ErrorView (js ''URI malformed'')"
    by (simp add: detail_effect_def loadMovie_def initial_detail_def render_def
        decode_plain_def js_def)
  show ?thesis
    by (intro conjI a b c d e f)
qed

text \<open>
  C10. When several records have the looked-up title up to case, the detail lookup
  returns the first of them in the order of the catalogue: a record is returned when
  its title matches and no record before it does, whatever comes after it and whatever
  state the lookup starts from.
\<close>

theorem lookup_returns_first_match:
  assumes "decodeURIComponent t = Inr decoded" and "t \<noteq> []"
    and "movies data = pre @ m # post"
    and "same_up_to_case (title m) decoded"
    and "\<forall>x \<in> set pre. \<not> same_up_to_case (title x) decoded"
  shows "movie (detail_effect decodeURIComponent (Json data) (Some t) initial_detail) = Some m \<and>
         render (detail_effect decodeURIComponent (Json data) (Some t) initial_detail) =
           DetailView m \<and>
         movie (detail_effect decodeURIComponent (Json data) (Some t) st) = Some m"
proof -
  have "find (\<lambda>m. toLowerCase (title m) = toLowerCase decoded) (movies data) = Some m"
    using assms(3-5) by (intro find_first [where pre = pre and post = post])
      (simp_all add: same_up_to_case_def)
  then show ?thesis
    using assms(1,2)
    by (simp add: detail_effect_def loadMovie_def initial_detail_def render_def)
qed

theorem lookup_returns_first_match_witness:
  "decode_plain (js ''alien'') = Inr (js ''alien'') \<and> js ''alien'' \<noteq> [] \<and>
   movies alien_catalog =
     [mk_detail (js ''Heat'') (js ''1995'') (js ''heist'')] @
     mk_detail (js ''Alien'') (js ''1979'') (js ''first'') #
     [mk_detail (js ''ALIEN'') (js ''2020'') (js ''second'')] \<and>
   same_up_to_case (title (mk_detail (js ''Alien'') (js ''1979'') (js ''first''))) (js ''alien'') \<and>
   same_up_to_case (title (mk_detail (js ''ALIEN'') (js ''2020'') (js ''second''))) (js ''alien'') \<and>
   \<not> same_up_to_case (title (mk_detail (js ''Heat'') (js ''1995'') (js ''heist''))) (js ''alien'') \<and>
   movie (detail_effect decode_plain (Json alien_catalog) (Some (js ''alien'')) initial_detail) =
     Some (mk_detail (js ''Alien'') (js ''1979'') (js ''first'')) \<and>
   render (detail_effect decode_plain (Json alien_catalog) (Some (js ''alien'')) initial_detail) =
     DetailView (mk_detail (js ''Alien'') (js ''1979'') (js ''first'')) \<and>
   movie (detail_effect decode_plain (Json alien_catalog) (Some (js ''alien''))
       \<lparr>movie = None, loading = False, error = Some (js ''Movie not found'')\<rparr>) =
     Some (mk_detail (js ''Alien'') (js ''1979'') (js ''first''))"
proof -
  have d: "decode_plain (js ''alien'') = Inr (js ''alien'')" and n: "js ''alien'' \<noteq> []"
    by (simp_all add: decode_plain_def)
  have c: "movies alien_catalog =
     [mk_detail (js ''Heat'') (js ''1995'') (js ''heist'')] @
     mk_detail (js ''Alien'') (js ''1979'') (js ''first'') #
     [mk_detail (js ''ALIEN'') (js ''2020'') (js ''second'')]"
    by (simp add: alien_catalog_def)
  have m1: "same_up_to_case (title (mk_detail (js ''Alien'') (js ''1979'') (js ''first'')))
      (js ''alien'')"
    and m2: "same_up_to_case (title (mk_detail (js ''ALIEN'') (js ''2020'') (js ''second'')))
      (js ''alien'')"
    and p': "\<not> same_up_to_case (title (mk_detail (js ''Heat'') (js ''1995'') (js ''heist'')))
      (js ''alien'')"
    by (simp_all add: detail_eval)
  have p: "\<forall>x \<in> set [mk_detail (js ''Heat'') (js ''1995'') (js ''heist'')].
      \<not> same_up_to_case (title x) (js ''alien'')"
    using p' by simp
  note f = lookup_returns_first_match [of decode_plain "js ''alien''" "js ''alien''"
      alien_catalog "[mk_detail (js ''Heat'') (js ''1995'') (js ''heist'')]"
      "mk_detail (js ''Alien'') (js ''1979'') (js ''first'')"
      "[mk_detail (js ''ALIEN'') (js ''2020'') (js ''second'')]"
      "\<lparr>movie = None, loading = False, error = Some (js ''Movie not found'')\<rparr>",
      OF d n c m1 p]
  show ?thesis
    by (intro conjI d n c m1 m2 p' conjunct1 [OF f] conjunct1 [OF conjunct2 [OF f]]
        conjunct2 [OF conjunct2 [OF f]])
qed

end
